theory Spec2Isabelle
  imports Main
begin

section \<open>The anonymous unsubscribe workflow of Postorius\<close>

text \<open>
  The development embeds \<^verbatim>\<open>postorius/verification_email.py\<close> (class
  \<^verbatim>\<open>UnsubscribeEmailImp\<close>) and the two views
  \<^verbatim>\<open>AnonymousUnsubscribeEmailView.post\<close> and
  \<^verbatim>\<open>AnonymousUnsubscribeView.get\<close> of \<^verbatim>\<open>postorius/views/list.py\<close>.
  Python strings are modelled as \<open>string\<close>; every effect of a view (cache access, a mail
  handed to the mail transport, a call to Mailman core, a flash message) is a field of an
  explicit \<open>world\<close> that the functions pass along.
\<close>

subsection \<open>Python string helpers\<close>

definition lower_letters :: string where
  "lower_letters = ''abcdefghijklmnopqrstuvwxyz''"

definition upper_letters :: string where
  "upper_letters = ''ABCDEFGHIJKLMNOPQRSTUVWXYZ''"

definition digits :: string where
  "digits = ''0123456789''"

text \<open>\<^verbatim>\<open>str.lower()\<close>, on the ASCII letters (a \<open>char\<close> is a byte).\<close>

definition lower_char :: "char \<Rightarrow> char" where
  "lower_char c = (case map_of (zip upper_letters lower_letters) c of None \<Rightarrow> c | Some d \<Rightarrow> d)"

definition lower :: "string \<Rightarrow> string" where
  "lower s = map lower_char s"

text \<open>\<^verbatim>\<open>list_id.replace(".", "@", 1)\<close>: only the first dot is replaced.\<close>

fun replace_first_dot :: "string \<Rightarrow> string" where
  "replace_first_dot [] = []"
| "replace_first_dot (c # cs) = (if c = CHR ''.'' then CHR ''@'' # cs else c # replace_first_dot cs)"

subsection \<open>The address pattern of the request view\<close>

text \<open>
  \<^verbatim>\<open>pattern = r"^[a-zA-Z0-9._%+-]+@[a-zA-Z0-9.-]+\.[a-zA-Z]{2,}$"\<close>, used with
  \<^verbatim>\<open>re.match\<close>. The first class does not contain \<^verbatim>\<open>@\<close>, so the local part is the
  longest run of its characters; the last class holds letters only, so the final dot of
  the pattern is the last dot of the text. Python's \<^verbatim>\<open>$\<close> also matches just before a
  newline that ends the text.
\<close>

definition local_class :: string where
  "local_class = lower_letters @ upper_letters @ digits @ ''._%+-''"

definition domain_class :: string where
  "domain_class = lower_letters @ upper_letters @ digits @ ''.-''"

definition letter_class :: string where
  "letter_class = lower_letters @ upper_letters"

definition strip_final_newline :: "string \<Rightarrow> string" where
  "strip_final_newline s = (if s \<noteq> [] \<and> last s = CHR 0x0A then butlast s else s)"

definition match_domain :: "string \<Rightarrow> bool" where
  "match_domain m =
     (let tld = takeWhile (\<lambda>c. c \<noteq> CHR ''.'') (rev m);
          front = dropWhile (\<lambda>c. c \<noteq> CHR ''.'') (rev m)
      in case front of
           [] \<Rightarrow> False
         | _ # name \<Rightarrow> name \<noteq> [] \<and> list_all (\<lambda>c. c \<in> set domain_class) name
                        \<and> 2 \<le> length tld \<and> list_all (\<lambda>c. c \<in> set letter_class) tld)"

definition match_pattern :: "string \<Rightarrow> bool" where
  "match_pattern email =
     (let local_part = takeWhile (\<lambda>c. c \<in> set local_class) email;
          rest = dropWhile (\<lambda>c. c \<in> set local_class) email
      in local_part \<noteq> [] \<and>
         (case rest of
            [] \<Rightarrow> False
          | c # d \<Rightarrow> c = CHR ''@'' \<and> match_domain (strip_final_newline d)))"

subsection \<open>The cache\<close>

text \<open>
  Modelled from the spec: the Pending-State Store is Django's cache backend, which is not
  part of the repository. A key-value store with a time to live per key: an entry whose time
  has run out is treated as absent by \<open>get\<close> and \<open>has_key\<close>.

  The views store two kinds of values: the text \<^verbatim>\<open>"1"\<close> (the pending marker) and the text
  \<^verbatim>\<open>json.dumps(save_dict)\<close> of a dictionary of strings. The JSON codec is library code; a
  stored JSON text is represented by the dictionary it decodes to.
\<close>

datatype cache_value = Marker | JsonObj "(string \<times> string) list"

record entry =
  stored :: cache_value
  expires :: nat

type_synonym cache = "string \<rightharpoonup> entry"

definition cache_get :: "nat \<Rightarrow> cache \<Rightarrow> string \<Rightarrow> cache_value option" where
  "cache_get now c key =
     (case c key of
        None \<Rightarrow> None
      | Some e \<Rightarrow> if expires e \<le> now then None else Some (stored e))"

definition cache_has_key :: "nat \<Rightarrow> cache \<Rightarrow> string \<Rightarrow> bool" where
  "cache_has_key now c key = (cache_get now c key \<noteq> None)"

definition cache_set :: "nat \<Rightarrow> cache \<Rightarrow> string \<Rightarrow> cache_value \<Rightarrow> nat \<Rightarrow> cache" where
  "cache_set now c key v timeout = c(key \<mapsto> \<lparr>stored = v, expires = now + timeout\<rparr>)"

definition cache_delete :: "cache \<Rightarrow> string \<Rightarrow> cache" where
  "cache_delete c key = c(key := None)"

subsection \<open>Effects, collaborators and the world\<close>

datatype level = Success | Error

datatype exn =
    RuntimeError string
  | SMTPException
  | MultiValueDictKeyError
  | AttributeError
  | HTTPError

text \<open>
  What a request does besides answering, in order. \<open>SendMail subject from_email
  recipient_list domain link\<close> is the call of \<^verbatim>\<open>send_mail\<close>; its body is the fixed
  template, represented by the two values filled in.
\<close>

datatype event =
    SendMail string string "string list" string string
  | CacheSet string cache_value nat
  | CacheDelete string
  | Unsubscribe string string

text \<open>The outcomes of \<^verbatim>\<open>self.mailing_list.unsubscribe(email_str)\<close>.\<close>

datatype unsub_outcome =
    Unsubscribed
  | TokenReturned
  | RaisesValueError string
  | RaisesOther

text \<open>
  The collaborators and settings a view is run with. \<open>get_user env email\<close> is False when
  \<^verbatim>\<open>client.get_user(email)\<close> raises \<^verbatim>\<open>HTTPError\<close>; \<open>next_unpredictable_id env n\<close> is
  the result of the \<open>n\<close>-th call of \<^verbatim>\<open>_next_unpredictable_id\<close> (a digest of the clock and
  a random number); \<open>send_mail env subject recipient_list\<close> is False when the mail
  transport raises.
\<close>

record env =
  get_user :: "string \<Rightarrow> bool"
  has_pending_unsub_req :: "string \<Rightarrow> string \<Rightarrow> bool"
  next_unpredictable_id :: "nat \<Rightarrow> string"
  send_mail :: "string \<Rightarrow> string list \<Rightarrow> bool"
  unsubscribe :: "string \<Rightarrow> string \<Rightarrow> unsub_outcome"
  SERVE_WEB_DOMAIN :: string
  DEFAULT_FROM_EMAIL :: string
  VERIFICATION_CODE_EXPIRATION :: nat

record world =
  cache :: cache
  clock :: nat
  events :: "event list"
  flash :: "(level \<times> string) list"
  draws :: nat

datatype response = Redirect string | Raised exn

definition emit :: "event \<Rightarrow> world \<Rightarrow> world" where
  "emit e w = w\<lparr>events := events w @ [e]\<rparr>"

definition message :: "level \<Rightarrow> string \<Rightarrow> world \<Rightarrow> world" where
  "message l text w = w\<lparr>flash := flash w @ [(l, text)]\<rparr>"

definition has_key :: "string \<Rightarrow> world \<Rightarrow> bool" where
  "has_key key w = cache_has_key (clock w) (cache w) key"

definition set_key :: "string \<Rightarrow> cache_value \<Rightarrow> nat \<Rightarrow> world \<Rightarrow> world" where
  "set_key key v timeout w =
     emit (CacheSet key v timeout) (w\<lparr>cache := cache_set (clock w) (cache w) key v timeout\<rparr>)"

text \<open>Time passing between two requests.\<close>

definition advance :: "nat \<Rightarrow> world \<Rightarrow> world" where
  "advance d w = w\<lparr>clock := clock w + d\<rparr>"

subsection \<open>UnsubscribeEmailImp\<close>

definition cache_key :: "string \<Rightarrow> string" where
  "cache_key token = ''unsubscribe_'' @ token"

definition unsubscribe_url :: "string \<Rightarrow> string \<Rightarrow> string \<Rightarrow> string" where
  "unsubscribe_url web_domain list_id token =
     ''https://'' @ web_domain @ ''/postorius/lists/'' @ list_id
       @ ''/anonymous_unsubscribe?token='' @ token"

text \<open>
  \<^verbatim>\<open>get_uuid\<close>: \<^verbatim>\<open>for attempts in range(5)\<close>, with the \<^verbatim>\<open>else\<close> branch of the loop
  raising \<^verbatim>\<open>RuntimeError\<close>. The first argument counts the attempts left.
\<close>

fun get_uuid_loop :: "env \<Rightarrow> nat \<Rightarrow> world \<Rightarrow> (exn + string) \<times> world" where
  "get_uuid_loop en 0 w = (Inl (RuntimeError ''Could not find a valid pendings token''), w)"
| "get_uuid_loop en (Suc n) w =
     (let token = next_unpredictable_id en (draws w);
          w1 = w\<lparr>draws := Suc (draws w)\<rparr>;
          key = cache_key token
      in if \<not> has_key key w1 then (Inr token, w1) else get_uuid_loop en n w1)"

definition get_uuid :: "env \<Rightarrow> world \<Rightarrow> (exn + string) \<times> world" where
  "get_uuid en w = get_uuid_loop en 5 w"

definition mail_subject :: "string \<Rightarrow> string" where
  "mail_subject list_name =
     ''Your confirmation is needed to leave the '' @ list_name @ '' mailing list''"

definition send_message ::
  "env \<Rightarrow> string \<Rightarrow> string \<Rightarrow> string \<Rightarrow> world \<Rightarrow> (exn + unit) \<times> world" where
  "send_message en list_name link_text recipient w =
     (let recipient_list = [recipient];
          subject = mail_subject list_name
      in if send_mail en subject recipient_list
         then (Inr (), emit (SendMail subject (DEFAULT_FROM_EMAIL en) recipient_list list_name link_text) w)
         else (Inl SMTPException, w))"

definition send_email :: "env \<Rightarrow> string \<Rightarrow> string \<Rightarrow> string \<Rightarrow> world \<Rightarrow> (exn + unit) \<times> world" where
  "send_email en email list_id token w =
     (let web_domain = SERVE_WEB_DOMAIN en;
          link_text = unsubscribe_url web_domain list_id token;
          list_name = replace_first_dot list_id
      in send_message en list_name link_text email w)"

definition set_token :: "env \<Rightarrow> string \<Rightarrow> string \<Rightarrow> string \<Rightarrow> world \<Rightarrow> world" where
  "set_token en email list_id token w =
     (let save_dict = [(''email'', email), (''list_id'', list_id)];
          key = cache_key token
      in set_key key (JsonObj save_dict) (VERIFICATION_CODE_EXPIRATION en) w)"

text \<open>
  \<^verbatim>\<open>get_token\<close> returns the empty dictionary for an absent (or expired) key and
  \<^verbatim>\<open>json.loads(value_str)\<close> otherwise; for the marker text \<^verbatim>\<open>"1"\<close> that is the number 1,
  not a dictionary.
\<close>

datatype loaded = Dict "(string \<times> string) list" | Number int

definition get_token :: "string \<Rightarrow> world \<Rightarrow> loaded" where
  "get_token token w =
     (let key = cache_key token
      in case cache_get (clock w) (cache w) key of
           None \<Rightarrow> Dict []
         | Some Marker \<Rightarrow> Number 1
         | Some (JsonObj d) \<Rightarrow> Dict d)"

definition delete_key :: "string \<Rightarrow> bool \<Rightarrow> world \<Rightarrow> world" where
  "delete_key key is_token w =
     (let k = (if is_token then cache_key key else key)
      in emit (CacheDelete k) (w\<lparr>cache := cache_delete (cache w) k\<rparr>))"

subsection \<open>The two views\<close>

definition invalid_email_text :: string where
  "invalid_email_text = ''The email you entered is invalid.''"

definition check_inbox_text :: string where
  "check_inbox_text =
     ''Please check your inbox for further instructions, Or the unsubscription request already pending.''"

definition failed_text :: string where
  "failed_text = ''Failed to send email''"

definition invalid_link_text :: string where
  "invalid_link_text = ''Invalid Link.''"

definition expired_text :: string where
  "expired_text = ''The token expired or invalid.''"

definition approval_text :: string where
  "approval_text = ''Your unsubscription request has been submitted and is waiting for moderator approval.''"

definition unsubscribed_text :: "string \<Rightarrow> string" where
  "unsubscribed_text email = email @ '' has been unsubscribed from this list.''"

definition pending_key :: "string \<Rightarrow> string \<Rightarrow> string" where
  "pending_key list_id email = lower (''unsubscribe_'' @ list_id @ ''_'' @ email)"

text \<open>
  \<^verbatim>\<open>AnonymousUnsubscribeEmailView.post\<close>. \<open>list_id\<close> is \<^verbatim>\<open>self.mailing_list.list_id\<close>
  and \<open>post_email\<close> is \<^verbatim>\<open>request.POST['email']\<close>, \<open>None\<close> when the form has no such
  field. Every exception of steps 1 to 4 is caught by the view.
\<close>

definition AnonymousUnsubscribeEmailView_post ::
  "env \<Rightarrow> string \<Rightarrow> string option \<Rightarrow> world \<Rightarrow> response \<times> world" where
  "AnonymousUnsubscribeEmailView_post en list_id post_email w =
     (case post_email of
        None \<Rightarrow> (Raised MultiValueDictKeyError, w)
      | Some email \<Rightarrow>
          if \<not> match_pattern email then (Redirect list_id, message Error invalid_email_text w)
          else if \<not> get_user en email then (Redirect list_id, message Success check_inbox_text w)
          else if has_pending_unsub_req en list_id email
            then (Redirect list_id, message Success check_inbox_text w)
          else
            let key = pending_key list_id email
            in if has_key key w then (Redirect list_id, message Success check_inbox_text w)
               else
                 (case get_uuid en w of
                    (Inl e, w1) \<Rightarrow> (Redirect list_id, message Error failed_text w1)
                  | (Inr token, w1) \<Rightarrow>
                      (case send_email en email list_id token w1 of
                         (Inl e, w2) \<Rightarrow> (Redirect list_id, message Error failed_text w2)
                       | (Inr u, w2) \<Rightarrow>
                           let w3 = set_key key Marker (VERIFICATION_CODE_EXPIRATION en) w2;
                               w4 = set_token en email list_id token w3
                           in (Redirect list_id, message Success check_inbox_text w4))))"

text \<open>
  \<^verbatim>\<open>AnonymousUnsubscribeView.get\<close>. \<open>get_param\<close> is \<^verbatim>\<open>request.GET.get("token")\<close>. The
  \<^verbatim>\<open>finally\<close> block runs for every outcome of the unsubscribe call; an exception other
  than \<^verbatim>\<open>ValueError\<close> leaves the view after it.
\<close>

definition finally_delete :: "string \<Rightarrow> string \<Rightarrow> world \<Rightarrow> world" where
  "finally_delete key token w = delete_key token True (delete_key key False w)"

definition AnonymousUnsubscribeView_get ::
  "env \<Rightarrow> string \<Rightarrow> string option \<Rightarrow> world \<Rightarrow> response \<times> world" where
  "AnonymousUnsubscribeView_get en list_id get_param w =
     (case get_param of
        None \<Rightarrow> (Redirect list_id, message Error invalid_link_text w)
      | Some token \<Rightarrow>
          (case get_token token w of
             Number n \<Rightarrow> (Raised AttributeError, w)
           | Dict dict_data \<Rightarrow>
               (case (map_of dict_data ''email'', map_of dict_data ''list_id'') of
                  (Some email_str, Some payload_list) \<Rightarrow>
                    let key = pending_key list_id email_str
                    in if \<not> has_key key w then (Redirect list_id, message Error expired_text w)
                       else
                         let w1 = emit (Unsubscribe list_id email_str) w
                         in (case unsubscribe en list_id email_str of
                               TokenReturned \<Rightarrow>
                                 (Redirect list_id,
                                  finally_delete key token (message Success approval_text w1))
                             | Unsubscribed \<Rightarrow>
                                 (Redirect list_id,
                                  finally_delete key token
                                    (message Success (unsubscribed_text email_str) w1))
                             | RaisesValueError text \<Rightarrow>
                                 (Redirect list_id,
                                  finally_delete key token (message Error text w1))
                             | RaisesOther \<Rightarrow>
                                 (Raised HTTPError, finally_delete key token w1))
                | _ \<Rightarrow> (Redirect list_id, message Error expired_text w))))"

text \<open>The mail transport accepts the confirmation mail of a request.\<close>

definition mail_accepted :: "env \<Rightarrow> string \<Rightarrow> string \<Rightarrow> bool" where
  "mail_accepted en list_id email = send_mail en (mail_subject (replace_first_dot list_id)) [email]"

text \<open>The response and the flash message of the \<^verbatim>\<open>try\<close> block of the confirmation view, for
  each outcome of the unsubscribe call (a summary used to state what the view does).\<close>

definition confirm_answer ::
  "string \<Rightarrow> string \<Rightarrow> unsub_outcome \<Rightarrow> response \<times> (level \<times> string) list" where
  "confirm_answer list_id email outcome =
     (case outcome of
        Unsubscribed \<Rightarrow> (Redirect list_id, [(Success, unsubscribed_text email)])
      | TokenReturned \<Rightarrow> (Redirect list_id, [(Success, approval_text)])
      | RaisesValueError text \<Rightarrow> (Redirect list_id, [(Error, text)])
      | RaisesOther \<Rightarrow> (Raised HTTPError, []))"

subsection \<open>A concrete scenario\<close>

text \<open>
  The address \<^verbatim>\<open>a@example.com\<close> on the list \<^verbatim>\<open>x.example.com\<close>, with every collaborator
  answering favourably and a time to live of 600 seconds. The first token drawn is
  \<^verbatim>\<open>c0ffee\<close>, every later one \<^verbatim>\<open>decaf1\<close>.
\<close>

definition example_env :: env where
  "example_env =
     \<lparr>get_user = (\<lambda>email. True),
      has_pending_unsub_req = (\<lambda>list_id email. False),
      next_unpredictable_id = (\<lambda>n. if n = 0 then ''c0ffee'' else ''decaf1''),
      send_mail = (\<lambda>subject recipient_list. True),
      unsubscribe = (\<lambda>list_id email. Unsubscribed),
      SERVE_WEB_DOMAIN = ''lists.example.com'',
      DEFAULT_FROM_EMAIL = ''postorius@example.com'',
      VERIFICATION_CODE_EXPIRATION = 600\<rparr>"

definition empty_world :: world where
  "empty_world = \<lparr>cache = Map.empty, clock = 100, events = [], flash = [], draws = 0\<rparr>"

text \<open>The store after the request of the scenario was served at time 100.\<close>

definition pending_cache :: cache where
  "pending_cache =
     [''unsubscribe_x.example.com_a@example.com'' \<mapsto> \<lparr>stored = Marker, expires = 700\<rparr>,
      ''unsubscribe_c0ffee'' \<mapsto>
        \<lparr>stored = JsonObj [(''email'', ''a@example.com''), (''list_id'', ''x.example.com'')],
         expires = 700\<rparr>]"

definition pending_world :: world where
  "pending_world = \<lparr>cache = pending_cache, clock = 100, events = [], flash = [], draws = 1\<rparr>"

text \<open>
  The same address with a second request pending on the list \<^verbatim>\<open>y.example.com\<close>, whose
  token is \<^verbatim>\<open>decaf1\<close>.
\<close>

definition two_lists_world :: world where
  "two_lists_world =
     \<lparr>cache = pending_cache
        (''unsubscribe_y.example.com_a@example.com'' \<mapsto> \<lparr>stored = Marker, expires = 700\<rparr>,
         ''unsubscribe_decaf1'' \<mapsto>
           \<lparr>stored = JsonObj [(''email'', ''a@example.com''), (''list_id'', ''y.example.com'')],
            expires = 700\<rparr>),
      clock = 100, events = [], flash = [], draws = 2\<rparr>"

text \<open>The token entry alone, its marker gone.\<close>

definition orphan_world :: world where
  "orphan_world =
     \<lparr>cache = [''unsubscribe_c0ffee'' \<mapsto>
         \<lparr>stored = JsonObj [(''email'', ''a@example.com''), (''list_id'', ''x.example.com'')],
          expires = 700\<rparr>],
      clock = 100, events = [], flash = [], draws = 1\<rparr>"


section \<open>Properties\<close>

subsection \<open>Evaluation rules and frame lemmas\<close>

lemmas char_classes =
  local_class_def domain_class_def letter_class_def lower_letters_def upper_letters_def digits_def

lemmas pattern_defs = match_pattern_def match_domain_def strip_final_newline_def char_classes

lemmas key_defs =
  pending_key_def cache_key_def lower_def lower_char_def upper_letters_def lower_letters_def

lemmas store_defs = has_key_def cache_has_key_def cache_get_def cache_set_def cache_delete_def

lemmas scenario_defs =
  example_env_def empty_world_def pending_world_def pending_cache_def two_lists_world_def
  orphan_world_def

lemmas effect_defs =
  emit_def message_def set_key_def set_token_def delete_key_def finally_delete_def advance_def

lemma has_key_draws [simp]: "has_key key (w\<lparr>draws := n\<rparr>) = has_key key w"
  by (simp add: has_key_def)

lemma scenario_address_valid: "match_pattern ''a@example.com''"
  by (simp add: pattern_defs)

lemma scenario_marker_key:
  "pending_key ''x.example.com'' ''a@example.com'' = ''unsubscribe_x.example.com_a@example.com''"
  by (simp add: key_defs)

lemma scenario_other_marker_key:
  "pending_key ''y.example.com'' ''a@example.com'' = ''unsubscribe_y.example.com_a@example.com''"
  by (simp add: key_defs)

subsection \<open>The token issuer\<close>

lemma get_uuid_loop_frame:
  "cache (snd (get_uuid_loop en n w)) = cache w \<and> clock (snd (get_uuid_loop en n w)) = clock w
   \<and> events (snd (get_uuid_loop en n w)) = events w \<and> flash (snd (get_uuid_loop en n w)) = flash w"
  by (induction n arbitrary: w) (simp_all add: Let_def)

lemma get_uuid_loop_draws:
  "draws (snd (get_uuid_loop en n w)) \<le> draws w + n"
proof (induction n arbitrary: w)
  case 0
  show ?case by simp
next
  case (Suc n)
  have "draws (snd (get_uuid_loop en n (w\<lparr>draws := Suc (draws w)\<rparr>))) \<le> Suc (draws w) + n"
    using Suc.IH [of "w\<lparr>draws := Suc (draws w)\<rparr>"] by simp
  then show ?case by (simp add: Let_def)
qed

lemma get_uuid_loop_fresh:
  "fst (get_uuid_loop en n w) = Inr token \<Longrightarrow> \<not> has_key (cache_key token) w"
proof (induction n arbitrary: w)
  case 0
  then show ?case by simp
next
  case (Suc n)
  show ?case
  proof (cases "has_key (cache_key (next_unpredictable_id en (draws w))) w")
    case True
    with Suc.prems have "fst (get_uuid_loop en n (w\<lparr>draws := Suc (draws w)\<rparr>)) = Inr token"
      by (simp add: Let_def)
    from Suc.IH [OF this] show ?thesis by simp
  next
    case False
    with Suc.prems have "token = next_unpredictable_id en (draws w)"
      by (simp add: Let_def)
    with False show ?thesis by simp
  qed
qed

lemma get_uuid_loop_exhausted:
  "(\<forall>i<n. has_key (cache_key (next_unpredictable_id en (draws w + i))) w) \<Longrightarrow>
   get_uuid_loop en n w =
     (Inl (RuntimeError ''Could not find a valid pendings token''), w\<lparr>draws := draws w + n\<rparr>)"
proof (induction n arbitrary: w)
  case 0
  show ?case by simp
next
  case (Suc n)
  let ?w1 = "w\<lparr>draws := Suc (draws w)\<rparr>"
  from Suc.prems have first: "has_key (cache_key (next_unpredictable_id en (draws w))) w"
    by (metis add.right_neutral zero_less_Suc)
  have "\<forall>i<n. has_key (cache_key (next_unpredictable_id en (draws ?w1 + i))) ?w1"
  proof (intro allI impI)
    fix i assume "i < n"
    then have "Suc i < Suc n" by simp
    with Suc.prems have "has_key (cache_key (next_unpredictable_id en (draws w + Suc i))) w"
      by blast
    then show "has_key (cache_key (next_unpredictable_id en (draws ?w1 + i))) ?w1" by simp
  qed
  from Suc.IH [OF this] first show ?case by (simp add: Let_def)
qed

lemma get_uuid_frame:
  assumes "get_uuid en w = (r, w1)"
  shows "cache w1 = cache w" and "clock w1 = clock w" and "events w1 = events w"
    and "flash w1 = flash w"
  using assms get_uuid_loop_frame [of en 5 w] by (simp_all add: get_uuid_def)

lemma get_uuid_fresh:
  assumes "get_uuid en w = (Inr token, w1)"
  shows "\<not> has_key (cache_key token) w"
  using assms get_uuid_loop_fresh [of en 5 w token] by (simp add: get_uuid_def)

text \<open>
  C6. \<^verbatim>\<open>get_uuid\<close> draws at most five candidate tokens and writes nothing to the store.
  A token it returns was not a key of the store when it was checked; when each of the
  five candidates is a key of the store, the call fails with the \<^verbatim>\<open>RuntimeError\<close>
  "Could not find a valid pendings token" (the token exhaustion error of the
  specification).
\<close>

theorem get_uuid_bounded:
  "draws (snd (get_uuid en w)) \<le> draws w + 5
   \<and> cache (snd (get_uuid en w)) = cache w
   \<and> events (snd (get_uuid en w)) = events w
   \<and> (\<forall>token. fst (get_uuid en w) = Inr token \<longrightarrow> \<not> has_key (cache_key token) w)
   \<and> ((\<forall>i<5. has_key (cache_key (next_unpredictable_id en (draws w + i))) w) \<longrightarrow>
        fst (get_uuid en w) = Inl (RuntimeError ''Could not find a valid pendings token''))"
proof (intro conjI allI impI)
  show "draws (snd (get_uuid en w)) \<le> draws w + 5"
    unfolding get_uuid_def by (rule get_uuid_loop_draws)
  show "cache (snd (get_uuid en w)) = cache w"
    unfolding get_uuid_def by (simp add: get_uuid_loop_frame)
  show "events (snd (get_uuid en w)) = events w"
    unfolding get_uuid_def by (simp add: get_uuid_loop_frame)
next
  fix token assume "fst (get_uuid en w) = Inr token"
  then show "\<not> has_key (cache_key token) w"
    unfolding get_uuid_def by (rule get_uuid_loop_fresh)
next
  assume "\<forall>i<5. has_key (cache_key (next_unpredictable_id en (draws w + i))) w"
  then show "fst (get_uuid en w) = Inl (RuntimeError ''Could not find a valid pendings token'')"
    unfolding get_uuid_def by (simp add: get_uuid_loop_exhausted)
qed

text \<open>
  In the scenario's pending store the first candidate \<^verbatim>\<open>c0ffee\<close> is taken and the second
  is returned; an issuer that only ever draws \<^verbatim>\<open>c0ffee\<close> gives up after five draws.
\<close>

theorem get_uuid_bounded_witness:
  "fst (get_uuid example_env (pending_world\<lparr>draws := 0\<rparr>)) = Inr ''decaf1''
   \<and> \<not> has_key (cache_key ''decaf1'') (pending_world\<lparr>draws := 0\<rparr>)
   \<and> draws (snd (get_uuid example_env (pending_world\<lparr>draws := 0\<rparr>))) \<le> 5
   \<and> has_key (cache_key ''c0ffee'') pending_world
   \<and> fst (get_uuid (example_env\<lparr>next_unpredictable_id := \<lambda>n. ''c0ffee''\<rparr>) pending_world)
       = Inl (RuntimeError ''Could not find a valid pendings token'')
   \<and> cache (snd (get_uuid (example_env\<lparr>next_unpredictable_id := \<lambda>n. ''c0ffee''\<rparr>) pending_world))
       = pending_cache"
proof -
  let ?en = "example_env\<lparr>next_unpredictable_id := \<lambda>n. ''c0ffee''\<rparr>"
  let ?w = "pending_world\<lparr>draws := 0\<rparr>"
  have taken: "has_key (cache_key ''c0ffee'') pending_world"
    by (simp add: key_defs store_defs scenario_defs)
  then have all_taken:
    "\<forall>i<5. has_key (cache_key (next_unpredictable_id ?en (draws pending_world + i))) pending_world"
    by simp
  have second: "fst (get_uuid example_env ?w) = Inr ''decaf1''"
    by (simp add: get_uuid_def eval_nat_numeral Let_def key_defs store_defs scenario_defs)
  from get_uuid_bounded [of example_env ?w] second
  have "\<not> has_key (cache_key ''decaf1'') ?w" and "draws (snd (get_uuid example_env ?w)) \<le> 5"
    by simp_all
  moreover from get_uuid_bounded [of ?en pending_world] all_taken
  have "fst (get_uuid ?en pending_world) = Inl (RuntimeError ''Could not find a valid pendings token'')"
    and "cache (snd (get_uuid ?en pending_world)) = pending_cache"
    by (simp_all add: pending_world_def)
  ultimately show ?thesis using second taken by simp
qed


subsection \<open>The request view\<close>

lemma send_email_accepted:
  "mail_accepted en list_id email \<Longrightarrow>
   send_email en email list_id token w =
     (Inr (), emit (SendMail (mail_subject (replace_first_dot list_id)) (DEFAULT_FROM_EMAIL en)
                      [email] (replace_first_dot list_id)
                      (unsubscribe_url (SERVE_WEB_DOMAIN en) list_id token)) w)"
  by (simp add: send_email_def send_message_def mail_accepted_def Let_def)

lemma send_email_refused:
  "\<not> mail_accepted en list_id email \<Longrightarrow> send_email en email list_id token w = (Inl SMTPException, w)"
  by (simp add: send_email_def send_message_def mail_accepted_def Let_def)

lemma post_invalid:
  "\<not> match_pattern email \<Longrightarrow>
   AnonymousUnsubscribeEmailView_post en list_id (Some email) w =
     (Redirect list_id, message Error invalid_email_text w)"
  by (simp add: AnonymousUnsubscribeEmailView_post_def)

lemma post_duplicate:
  assumes "match_pattern email" and "has_key (pending_key list_id email) w"
  shows "AnonymousUnsubscribeEmailView_post en list_id (Some email) w =
           (Redirect list_id, message Success check_inbox_text w)"
  using assms by (simp add: AnonymousUnsubscribeEmailView_post_def)

lemma post_unknown_or_pending:
  assumes "match_pattern email"
    and "has_pending_unsub_req en list_id email \<or> \<not> get_user en email"
  shows "AnonymousUnsubscribeEmailView_post en list_id (Some email) w =
           (Redirect list_id, message Success check_inbox_text w)"
  using assms by (auto simp add: AnonymousUnsubscribeEmailView_post_def)

lemma post_fresh:
  assumes "match_pattern email" and "get_user en email"
    and "\<not> has_pending_unsub_req en list_id email"
    and "\<not> has_key (pending_key list_id email) w"
  shows "AnonymousUnsubscribeEmailView_post en list_id (Some email) w =
     (case get_uuid en w of
        (Inl e, w1) \<Rightarrow> (Redirect list_id, message Error failed_text w1)
      | (Inr token, w1) \<Rightarrow>
          if mail_accepted en list_id email
          then (Redirect list_id,
                message Success check_inbox_text
                  (set_token en email list_id token
                    (set_key (pending_key list_id email) Marker (VERIFICATION_CODE_EXPIRATION en)
                      (emit (SendMail (mail_subject (replace_first_dot list_id))
                               (DEFAULT_FROM_EMAIL en) [email] (replace_first_dot list_id)
                               (unsubscribe_url (SERVE_WEB_DOMAIN en) list_id token)) w1))))
          else (Redirect list_id, message Error failed_text w1))"
  using assms
  by (simp add: AnonymousUnsubscribeEmailView_post_def send_email_accepted send_email_refused
      split: prod.splits sum.splits)

text \<open>The request of the scenario, served on the empty store, leaves the pending store.\<close>

lemma scenario_first_request:
  "AnonymousUnsubscribeEmailView_post example_env ''x.example.com'' (Some ''a@example.com'')
     empty_world
   = (Redirect ''x.example.com'',
      pending_world
        \<lparr>events :=
           [SendMail ''Your confirmation is needed to leave the x@example.com mailing list''
              ''postorius@example.com'' [''a@example.com''] ''x@example.com''
              ''https://lists.example.com/postorius/lists/x.example.com/anonymous_unsubscribe?token=c0ffee'',
            CacheSet ''unsubscribe_x.example.com_a@example.com'' Marker 600,
            CacheSet ''unsubscribe_c0ffee''
              (JsonObj [(''email'', ''a@example.com''), (''list_id'', ''x.example.com'')]) 600],
         flash := [(Success, check_inbox_text)]\<rparr>)"
proof -
  have fresh: "\<not> has_key (pending_key ''x.example.com'' ''a@example.com'') empty_world"
    by (simp add: store_defs empty_world_def)
  have token: "get_uuid example_env empty_world = (Inr ''c0ffee'', empty_world\<lparr>draws := 1\<rparr>)"
    by (simp add: get_uuid_def eval_nat_numeral Let_def key_defs store_defs scenario_defs)
  have accepted: "mail_accepted example_env ''x.example.com'' ''a@example.com''"
    by (simp add: mail_accepted_def example_env_def)
  have "get_user example_env ''a@example.com''"
    and "\<not> has_pending_unsub_req example_env ''x.example.com'' ''a@example.com''"
    by (simp_all add: example_env_def)
  from post_fresh [OF scenario_address_valid this fresh] token accepted
  show ?thesis
    by (simp add: effect_defs scenario_marker_key cache_key_def cache_set_def mail_subject_def
        unsubscribe_url_def scenario_defs Let_def)
qed

text \<open>
  Two requests in a row: when the first one goes through and the time to live is not zero,
  the marker it wrote is a key of the store, so the second one is a duplicate.
\<close>

lemma request_twice:
  assumes "match_pattern email" and "get_user en email"
    and "\<not> has_pending_unsub_req en list_id email"
    and "\<not> has_key (pending_key list_id email) w"
    and "get_uuid en w = (Inr token, w1)"
    and "mail_accepted en list_id email"
    and "0 < VERIFICATION_CODE_EXPIRATION en"
    and "AnonymousUnsubscribeEmailView_post en list_id (Some email) w = (r, w')"
  shows "AnonymousUnsubscribeEmailView_post en2 list_id (Some email) w' =
           (Redirect list_id, message Success check_inbox_text w')"
proof -
  note frame = get_uuid_frame [OF assms(5)]
  from assms have w': "w' = message Success check_inbox_text
      (set_token en email list_id token
        (set_key (pending_key list_id email) Marker (VERIFICATION_CODE_EXPIRATION en)
          (emit (SendMail (mail_subject (replace_first_dot list_id))
                   (DEFAULT_FROM_EMAIL en) [email] (replace_first_dot list_id)
                   (unsubscribe_url (SERVE_WEB_DOMAIN en) list_id token)) w1)))"
    by (simp add: post_fresh)
  have "has_key (pending_key list_id email) w'"
    unfolding w' using assms(7) by (simp add: effect_defs store_defs Let_def)
  with assms(1) show ?thesis by (rule post_duplicate)
qed

text \<open>
  C1. For an address that matches the pattern and a list whose pending marker is in the
  store, the request view answers with the acknowledgment "Please check your inbox ..." and
  changes nothing but the flash messages: no token is drawn, no mail is sent, the store is
  not written. That acknowledgment is the answer of a first, successful request, after which
  the marker is in the store (\<open>request_twice\<close>).
\<close>

theorem duplicate_request_is_suppressed:
  assumes "match_pattern email" and "has_key (pending_key list_id email) w"
  shows "AnonymousUnsubscribeEmailView_post en list_id (Some email) w =
           (Redirect list_id, w\<lparr>flash := flash w @ [(Success, check_inbox_text)]\<rparr>)"
  using post_duplicate [OF assms] by (simp add: message_def)

theorem duplicate_request_is_suppressed_witness:
  "match_pattern ''a@example.com''
   \<and> has_key (pending_key ''x.example.com'' ''a@example.com'') pending_world
   \<and> AnonymousUnsubscribeEmailView_post example_env ''x.example.com'' (Some ''a@example.com'')
        pending_world
      = (Redirect ''x.example.com'', pending_world\<lparr>flash := [(Success, check_inbox_text)]\<rparr>)"
proof -
  have marked: "has_key (pending_key ''x.example.com'' ''a@example.com'') pending_world"
    by (simp add: key_defs store_defs scenario_defs)
  have "flash pending_world = []"
    by (simp add: pending_world_def)
  with duplicate_request_is_suppressed [OF scenario_address_valid marked, of example_env]
    scenario_address_valid marked
  show ?thesis by simp
qed

text \<open>
  C4. When a request gets as far as sending the mail and the mail transport refuses it, the
  view answers "Failed to send email" and the store is as it was before the request: no
  write happened, and neither the pending marker of the list and address nor the key of the
  token just drawn is a key of the store. (The marker and the token entry are written only
  after the mail was handed over.)
\<close>

theorem failed_send_writes_nothing:
  assumes "match_pattern email" and "get_user en email"
    and "\<not> has_pending_unsub_req en list_id email"
    and "\<not> has_key (pending_key list_id email) w"
    and "get_uuid en w = (Inr token, w1)"
    and "\<not> mail_accepted en list_id email"
    and "AnonymousUnsubscribeEmailView_post en list_id (Some email) w = (r, w')"
  shows "r = Redirect list_id \<and> flash w' = flash w @ [(Error, failed_text)]
         \<and> cache w' = cache w \<and> events w' = events w
         \<and> \<not> has_key (pending_key list_id email) w' \<and> \<not> has_key (cache_key token) w'"
proof -
  from assms have res: "r = Redirect list_id" "w' = message Error failed_text w1"
    by (simp_all add: post_fresh)
  note frame = get_uuid_frame [OF assms(5)]
  have "\<not> has_key (cache_key token) w" by (rule get_uuid_fresh [OF assms(5)])
  with assms(4) res frame show ?thesis
    by (simp add: message_def has_key_def)
qed

theorem failed_send_writes_nothing_witness:
  "match_pattern ''a@example.com''
   \<and> \<not> has_key (pending_key ''x.example.com'' ''a@example.com'') empty_world
   \<and> get_uuid (example_env\<lparr>send_mail := \<lambda>subject recipient_list. False\<rparr>) empty_world
       = (Inr ''c0ffee'', empty_world\<lparr>draws := 1\<rparr>)
   \<and> AnonymousUnsubscribeEmailView_post
        (example_env\<lparr>send_mail := \<lambda>subject recipient_list. False\<rparr>)
        ''x.example.com'' (Some ''a@example.com'') empty_world
      = (Redirect ''x.example.com'', empty_world\<lparr>flash := [(Error, failed_text)], draws := 1\<rparr>)
   \<and> \<not> has_key (cache_key ''c0ffee'')
         (empty_world\<lparr>flash := [(Error, failed_text)], draws := 1\<rparr>)"
proof -
  let ?en = "example_env\<lparr>send_mail := \<lambda>subject recipient_list. False\<rparr>"
  let ?w' = "empty_world\<lparr>flash := [(Error, failed_text)], draws := 1\<rparr>"
  have fresh: "\<not> has_key (pending_key ''x.example.com'' ''a@example.com'') empty_world"
    by (simp add: store_defs empty_world_def)
  have token: "get_uuid ?en empty_world = (Inr ''c0ffee'', empty_world\<lparr>draws := 1\<rparr>)"
    by (simp add: get_uuid_def eval_nat_numeral Let_def key_defs store_defs scenario_defs)
  have refused: "\<not> mail_accepted ?en ''x.example.com'' ''a@example.com''"
    by (simp add: mail_accepted_def)
  have known: "get_user ?en ''a@example.com''"
    and none: "\<not> has_pending_unsub_req ?en ''x.example.com'' ''a@example.com''"
    by (simp_all add: example_env_def)
  have run: "AnonymousUnsubscribeEmailView_post ?en ''x.example.com'' (Some ''a@example.com'')
               empty_world = (Redirect ''x.example.com'', ?w')"
    using post_fresh [OF scenario_address_valid known none fresh] token refused
    by (simp add: message_def empty_world_def)
  from failed_send_writes_nothing [OF scenario_address_valid known none fresh token refused run]
  have "\<not> has_key (cache_key ''c0ffee'') ?w'" by simp
  with scenario_address_valid fresh token run show ?thesis by simp
qed


text \<open>
  C9. A request that gets through (the address matches, the user is known, nothing is
  pending, a token was drawn and the mail handed over) writes exactly two store entries, the
  pending marker and the token payload, both with the time to live
  \<^verbatim>\<open>settings.VERIFICATION_CODE_EXPIRATION\<close>; the two entries run out at the same time.
\<close>

theorem marker_and_token_share_timeout:
  assumes "match_pattern email" and "get_user en email"
    and "\<not> has_pending_unsub_req en list_id email"
    and "\<not> has_key (pending_key list_id email) w"
    and "get_uuid en w = (Inr token, w1)"
    and "mail_accepted en list_id email"
    and "AnonymousUnsubscribeEmailView_post en list_id (Some email) w = (r, w')"
  shows "events w' = events w @
           [SendMail (mail_subject (replace_first_dot list_id)) (DEFAULT_FROM_EMAIL en) [email]
              (replace_first_dot list_id) (unsubscribe_url (SERVE_WEB_DOMAIN en) list_id token),
            CacheSet (pending_key list_id email) Marker (VERIFICATION_CODE_EXPIRATION en),
            CacheSet (cache_key token) (JsonObj [(''email'', email), (''list_id'', list_id)])
              (VERIFICATION_CODE_EXPIRATION en)]
         \<and> map_option expires (cache w' (pending_key list_id email))
             = Some (clock w + VERIFICATION_CODE_EXPIRATION en)
         \<and> map_option expires (cache w' (cache_key token))
             = Some (clock w + VERIFICATION_CODE_EXPIRATION en)"
proof -
  note frame = get_uuid_frame [OF assms(5)]
  from assms have w': "w' = message Success check_inbox_text
      (set_token en email list_id token
        (set_key (pending_key list_id email) Marker (VERIFICATION_CODE_EXPIRATION en)
          (emit (SendMail (mail_subject (replace_first_dot list_id))
                   (DEFAULT_FROM_EMAIL en) [email] (replace_first_dot list_id)
                   (unsubscribe_url (SERVE_WEB_DOMAIN en) list_id token)) w1)))"
    by (simp add: post_fresh)
  have ev: "events w' = events w1 @
           [SendMail (mail_subject (replace_first_dot list_id)) (DEFAULT_FROM_EMAIL en) [email]
              (replace_first_dot list_id) (unsubscribe_url (SERVE_WEB_DOMAIN en) list_id token),
            CacheSet (pending_key list_id email) Marker (VERIFICATION_CODE_EXPIRATION en),
            CacheSet (cache_key token) (JsonObj [(''email'', email), (''list_id'', list_id)])
              (VERIFICATION_CODE_EXPIRATION en)]"
    unfolding w' by (simp add: effect_defs Let_def)
  have c: "cache w' =
      (cache w1)(pending_key list_id email \<mapsto>
                   \<lparr>stored = Marker, expires = clock w1 + VERIFICATION_CODE_EXPIRATION en\<rparr>,
                 cache_key token \<mapsto>
                   \<lparr>stored = JsonObj [(''email'', email), (''list_id'', list_id)],
                    expires = clock w1 + VERIFICATION_CODE_EXPIRATION en\<rparr>)"
    unfolding w' by (simp add: effect_defs cache_set_def Let_def)
  show ?thesis
    using ev c frame by simp
qed

theorem marker_and_token_share_timeout_witness:
  "events (snd (AnonymousUnsubscribeEmailView_post example_env ''x.example.com''
                  (Some ''a@example.com'') empty_world))
     = [SendMail ''Your confirmation is needed to leave the x@example.com mailing list''
          ''postorius@example.com'' [''a@example.com''] ''x@example.com''
          ''https://lists.example.com/postorius/lists/x.example.com/anonymous_unsubscribe?token=c0ffee'',
        CacheSet ''unsubscribe_x.example.com_a@example.com'' Marker 600,
        CacheSet ''unsubscribe_c0ffee''
          (JsonObj [(''email'', ''a@example.com''), (''list_id'', ''x.example.com'')]) 600]
   \<and> map_option expires
        (cache (snd (AnonymousUnsubscribeEmailView_post example_env ''x.example.com''
                       (Some ''a@example.com'') empty_world))
           ''unsubscribe_x.example.com_a@example.com'') = Some 700
   \<and> map_option expires
        (cache (snd (AnonymousUnsubscribeEmailView_post example_env ''x.example.com''
                       (Some ''a@example.com'') empty_world))
           ''unsubscribe_c0ffee'') = Some 700"
proof -
  have fresh: "\<not> has_key (pending_key ''x.example.com'' ''a@example.com'') empty_world"
    by (simp add: store_defs empty_world_def)
  have token: "get_uuid example_env empty_world = (Inr ''c0ffee'', empty_world\<lparr>draws := 1\<rparr>)"
    by (simp add: get_uuid_def eval_nat_numeral Let_def key_defs store_defs scenario_defs)
  have accepted: "mail_accepted example_env ''x.example.com'' ''a@example.com''"
    by (simp add: mail_accepted_def example_env_def)
  have known: "get_user example_env ''a@example.com''"
    and none: "\<not> has_pending_unsub_req example_env ''x.example.com'' ''a@example.com''"
    by (simp_all add: example_env_def)
  have env: "DEFAULT_FROM_EMAIL example_env = ''postorius@example.com''"
    "SERVE_WEB_DOMAIN example_env = ''lists.example.com''"
    "VERIFICATION_CODE_EXPIRATION example_env = 600"
    by (simp_all add: example_env_def)
  have now: "clock empty_world = 100" "events empty_world = []"
    by (simp_all add: empty_world_def)
  from marker_and_token_share_timeout
    [OF scenario_address_valid known none fresh token accepted prod.collapse [symmetric]]
  show ?thesis
    by (simp add: env now scenario_marker_key cache_key_def mail_subject_def unsubscribe_url_def)
qed

text \<open>
  C7, as the code has it. The request view always redirects to the list summary and adds one
  flash message. For an address that matches the pattern the message is the fixed
  acknowledgment "Please check your inbox ..." whenever the request went through, was a
  duplicate of a pending request (in the store or in Mailman core) or named an unknown
  user; when no token could be issued or the mail transport refused the mail the message is
  "Failed to send email" instead, and an address that does not match the pattern gets "The
  email you entered is invalid.".
\<close>

theorem request_answer:
  "fst (AnonymousUnsubscribeEmailView_post en list_id (Some email) w) = Redirect list_id
   \<and> flash (snd (AnonymousUnsubscribeEmailView_post en list_id (Some email) w)) = flash w @
       [if match_pattern email
        then if has_key (pending_key list_id email) w \<or> has_pending_unsub_req en list_id email
                  \<or> \<not> get_user en email
             then (Success, check_inbox_text)
             else (case fst (get_uuid en w) of
                     Inl e \<Rightarrow> (Error, failed_text)
                   | Inr token \<Rightarrow>
                       if mail_accepted en list_id email then (Success, check_inbox_text)
                       else (Error, failed_text))
        else (Error, invalid_email_text)]"
proof (cases "match_pattern email")
  case False
  then show ?thesis by (simp add: post_invalid message_def)
next
  case valid: True
  show ?thesis
  proof (cases "has_key (pending_key list_id email) w \<or> has_pending_unsub_req en list_id email
                  \<or> \<not> get_user en email")
    case True
    then have "AnonymousUnsubscribeEmailView_post en list_id (Some email) w =
                 (Redirect list_id, message Success check_inbox_text w)"
      using valid post_duplicate post_unknown_or_pending by blast
    with valid True show ?thesis by (simp add: message_def)
  next
    case False
    obtain res w1 where g: "get_uuid en w = (res, w1)" by (cases "get_uuid en w")
    note frame = get_uuid_frame [OF g]
    from False valid have "AnonymousUnsubscribeEmailView_post en list_id (Some email) w =
     (case get_uuid en w of
        (Inl e, w1) \<Rightarrow> (Redirect list_id, message Error failed_text w1)
      | (Inr token, w1) \<Rightarrow>
          if mail_accepted en list_id email
          then (Redirect list_id,
                message Success check_inbox_text
                  (set_token en email list_id token
                    (set_key (pending_key list_id email) Marker (VERIFICATION_CODE_EXPIRATION en)
                      (emit (SendMail (mail_subject (replace_first_dot list_id))
                               (DEFAULT_FROM_EMAIL en) [email] (replace_first_dot list_id)
                               (unsubscribe_url (SERVE_WEB_DOMAIN en) list_id token)) w1))))
          else (Redirect list_id, message Error failed_text w1))"
      by (simp add: post_fresh)
    with g frame valid False show ?thesis
      by (cases res) (simp_all add: effect_defs Let_def)
  qed
qed

theorem request_answer_witness:
  "flash (snd (AnonymousUnsubscribeEmailView_post example_env ''x.example.com''
                 (Some ''a@example.com'') pending_world)) = [(Success, check_inbox_text)]
   \<and> flash (snd (AnonymousUnsubscribeEmailView_post example_env ''x.example.com''
                 (Some ''not an address'') pending_world)) = [(Error, invalid_email_text)]"
proof -
  have marked: "has_key (pending_key ''x.example.com'' ''a@example.com'') pending_world"
    by (simp add: key_defs store_defs scenario_defs)
  have invalid: "\<not> match_pattern ''not an address''"
    by (simp add: pattern_defs)
  have "flash pending_world = []" by (simp add: pending_world_def)
  with request_answer [of example_env "''x.example.com''" "''a@example.com''" pending_world]
    request_answer [of example_env "''x.example.com''" "''not an address''" pending_world]
    marked invalid scenario_address_valid
  show ?thesis by simp
qed

text \<open>
  The claim as stated fails: on the empty store the request of the scenario is answered
  with the acknowledgment when the mail goes out and with "Failed to send email" when the
  mail transport refuses it.
\<close>

theorem request_answer_counterexample:
  "flash (snd (AnonymousUnsubscribeEmailView_post example_env ''x.example.com''
                 (Some ''a@example.com'') empty_world))
     = [(Success, check_inbox_text)]
   \<and> flash (snd (AnonymousUnsubscribeEmailView_post
                 (example_env\<lparr>send_mail := \<lambda>subject recipient_list. False\<rparr>)
                 ''x.example.com'' (Some ''a@example.com'') empty_world))
     = [(Error, failed_text)]
   \<and> (Error, failed_text) \<noteq> (Success, check_inbox_text)"
proof -
  let ?en = "example_env\<lparr>send_mail := \<lambda>subject recipient_list. False\<rparr>"
  have fresh: "\<not> has_key (pending_key ''x.example.com'' ''a@example.com'') empty_world"
    by (simp add: store_defs empty_world_def)
  have token: "get_uuid ?en empty_world = (Inr ''c0ffee'', empty_world\<lparr>draws := 1\<rparr>)"
    by (simp add: get_uuid_def eval_nat_numeral Let_def key_defs store_defs scenario_defs)
  have refused: "\<not> mail_accepted ?en ''x.example.com'' ''a@example.com''"
    by (simp add: mail_accepted_def)
  have known: "get_user ?en ''a@example.com''"
    and none: "\<not> has_pending_unsub_req ?en ''x.example.com'' ''a@example.com''"
    by (simp_all add: example_env_def)
  have "AnonymousUnsubscribeEmailView_post ?en ''x.example.com'' (Some ''a@example.com'')
          empty_world
        = (Redirect ''x.example.com'', empty_world\<lparr>flash := [(Error, failed_text)], draws := 1\<rparr>)"
    using post_fresh [OF scenario_address_valid known none fresh] token refused
    by (simp add: message_def empty_world_def)
  then show ?thesis by (simp add: scenario_first_request)
qed


subsection \<open>The confirmation view\<close>

lemma finally_delete_fields:
  "cache (finally_delete key token w) = (cache w)(key := None, cache_key token := None)"
  "events (finally_delete key token w) = events w @ [CacheDelete key, CacheDelete (cache_key token)]"
  "flash (finally_delete key token w) = flash w"
  "clock (finally_delete key token w) = clock w"
  "draws (finally_delete key token w) = draws w"
  by (simp_all add: finally_delete_def delete_key_def emit_def cache_delete_def Let_def)

lemma get_token_absent:
  "cache_get (clock w) (cache w) (cache_key token) = None \<Longrightarrow> get_token token w = Dict []"
  by (simp add: get_token_def)

lemma get_token_payload:
  "cache_get (clock w) (cache w) (cache_key token) = Some (JsonObj d) \<Longrightarrow>
   get_token token w = Dict d"
  by (simp add: get_token_def)

lemma get_rejects_absent:
  assumes "cache_get (clock w) (cache w) (cache_key token) = None"
  shows "AnonymousUnsubscribeView_get en list_id (Some token) w =
           (Redirect list_id, message Error expired_text w)"
  by (simp add: AnonymousUnsubscribeView_get_def get_token_absent [OF assms])

lemma get_rejects_unmarked:
  assumes "cache_get (clock w) (cache w) (cache_key token) = Some (JsonObj d)"
    and "map_of d ''email'' = Some email" and "map_of d ''list_id'' = Some payload_list"
    and "\<not> has_key (pending_key list_id email) w"
  shows "AnonymousUnsubscribeView_get en list_id (Some token) w =
           (Redirect list_id, message Error expired_text w)"
  using assms(2-) by (simp add: AnonymousUnsubscribeView_get_def get_token_payload [OF assms(1)])

lemma get_consumes:
  assumes "cache_get (clock w) (cache w) (cache_key token) = Some (JsonObj d)"
    and "map_of d ''email'' = Some email" and "map_of d ''list_id'' = Some payload_list"
    and "has_key (pending_key list_id email) w"
  shows "AnonymousUnsubscribeView_get en list_id (Some token) w =
           (fst (confirm_answer list_id email (unsubscribe en list_id email)),
            w\<lparr>cache := (cache w)(pending_key list_id email := None, cache_key token := None),
              events := events w @ [Unsubscribe list_id email,
                                    CacheDelete (pending_key list_id email),
                                    CacheDelete (cache_key token)],
              flash := flash w @ snd (confirm_answer list_id email (unsubscribe en list_id email))\<rparr>)"
proof (cases "unsubscribe en list_id email")
  case Unsubscribed
  with assms(2-) show ?thesis
    by (simp add: AnonymousUnsubscribeView_get_def get_token_payload [OF assms(1)]
        confirm_answer_def effect_defs cache_delete_def Let_def)
next
  case TokenReturned
  with assms(2-) show ?thesis
    by (simp add: AnonymousUnsubscribeView_get_def get_token_payload [OF assms(1)]
        confirm_answer_def effect_defs cache_delete_def Let_def)
next
  case (RaisesValueError msg)
  with assms(2-) show ?thesis
    by (simp add: AnonymousUnsubscribeView_get_def get_token_payload [OF assms(1)]
        confirm_answer_def effect_defs cache_delete_def Let_def)
next
  case RaisesOther
  with assms(2-) show ?thesis
    by (simp add: AnonymousUnsubscribeView_get_def get_token_payload [OF assms(1)]
        confirm_answer_def effect_defs cache_delete_def Let_def)
qed

lemma scenario_payload:
  "cache_get (clock pending_world) (cache pending_world) (cache_key ''c0ffee'')
     = Some (JsonObj [(''email'', ''a@example.com''), (''list_id'', ''x.example.com'')])"
  by (simp add: key_defs store_defs scenario_defs)

lemma scenario_marked:
  "has_key (pending_key ''x.example.com'' ''a@example.com'') pending_world"
  by (simp add: key_defs store_defs scenario_defs)

lemma scenario_confirmation:
  "AnonymousUnsubscribeView_get en ''x.example.com'' (Some ''c0ffee'') pending_world =
     (fst (confirm_answer ''x.example.com'' ''a@example.com''
             (unsubscribe en ''x.example.com'' ''a@example.com'')),
      \<lparr>cache = Map.empty, clock = 100,
       events = [Unsubscribe ''x.example.com'' ''a@example.com'',
                 CacheDelete ''unsubscribe_x.example.com_a@example.com'',
                 CacheDelete ''unsubscribe_c0ffee''],
       flash = snd (confirm_answer ''x.example.com'' ''a@example.com''
                      (unsubscribe en ''x.example.com'' ''a@example.com'')),
       draws = 1\<rparr>)"
proof -
  have "AnonymousUnsubscribeView_get en ''x.example.com'' (Some ''c0ffee'') pending_world =
           (fst (confirm_answer ''x.example.com'' ''a@example.com''
                   (unsubscribe en ''x.example.com'' ''a@example.com'')),
            pending_world
             \<lparr>cache := (cache pending_world)
                 (pending_key ''x.example.com'' ''a@example.com'' := None,
                  cache_key ''c0ffee'' := None),
              events := events pending_world @
                 [Unsubscribe ''x.example.com'' ''a@example.com'',
                  CacheDelete (pending_key ''x.example.com'' ''a@example.com''),
                  CacheDelete (cache_key ''c0ffee'')],
              flash := flash pending_world @
                 snd (confirm_answer ''x.example.com'' ''a@example.com''
                        (unsubscribe en ''x.example.com'' ''a@example.com''))\<rparr>)"
    by (rule get_consumes [OF scenario_payload _ _ scenario_marked]) simp_all
  then show ?thesis
    by (simp add: scenario_marker_key cache_key_def scenario_defs)
qed


lemma scenario_fields:
  "map_of [(''email'', ''a@example.com''), (''list_id'', ''x.example.com'')] ''email''
     = Some ''a@example.com''"
  "map_of [(''email'', ''a@example.com''), (''list_id'', ''x.example.com'')] ''list_id''
     = Some ''x.example.com''"
  by simp_all

text \<open>
  C5. A token whose key is not in the store, because no entry was ever written under it or
  because the entry's time to live has run out, is answered with "The token expired or
  invalid."; nothing but the flash messages changes, so no unsubscribe call is made. The
  answer is the same function of the list and the earlier flash messages in both cases.
\<close>

theorem absent_token_is_rejected:
  assumes "cache w (cache_key token) = None
           \<or> (\<exists>e. cache w (cache_key token) = Some e \<and> expires e \<le> clock w)"
  shows "AnonymousUnsubscribeView_get en list_id (Some token) w =
           (Redirect list_id, w\<lparr>flash := flash w @ [(Error, expired_text)]\<rparr>)"
proof -
  from assms have "cache_get (clock w) (cache w) (cache_key token) = None"
    by (auto simp add: cache_get_def)
  from get_rejects_absent [OF this] show ?thesis
    by (simp add: message_def)
qed

text \<open>
  In the scenario \<^verbatim>\<open>decaf1\<close> was never issued, and \<^verbatim>\<open>c0ffee\<close> has run out 600 seconds
  after the request.
\<close>

theorem absent_token_is_rejected_witness:
  "cache pending_world (cache_key ''decaf1'') = None
   \<and> AnonymousUnsubscribeView_get example_env ''x.example.com'' (Some ''decaf1'') pending_world
       = (Redirect ''x.example.com'', pending_world\<lparr>flash := [(Error, expired_text)]\<rparr>)
   \<and> map_option expires (cache (advance 600 pending_world) (cache_key ''c0ffee'')) = Some 700
   \<and> clock (advance 600 pending_world) = 700
   \<and> AnonymousUnsubscribeView_get example_env ''x.example.com'' (Some ''c0ffee'')
         (advance 600 pending_world)
       = (Redirect ''x.example.com'',
          pending_world\<lparr>clock := 700, flash := [(Error, expired_text)]\<rparr>)"
proof -
  have never: "cache pending_world (cache_key ''decaf1'') = None"
    by (simp add: cache_key_def scenario_defs)
  have entry: "cache (advance 600 pending_world) (cache_key ''c0ffee'')
                 = Some \<lparr>stored = JsonObj [(''email'', ''a@example.com''),
                                            (''list_id'', ''x.example.com'')],
                         expires = 700\<rparr>"
    by (simp add: cache_key_def advance_def scenario_defs)
  have now: "clock (advance 600 pending_world) = 700"
    by (simp add: advance_def pending_world_def)
  have run_out: "cache (advance 600 pending_world) (cache_key ''c0ffee'') = None
      \<or> (\<exists>e. cache (advance 600 pending_world) (cache_key ''c0ffee'') = Some e
              \<and> expires e \<le> clock (advance 600 pending_world))"
    by (simp add: entry now)
  have "flash pending_world = []" by (simp add: pending_world_def)
  with absent_token_is_rejected [OF disjI1, OF never, of example_env "''x.example.com''"]
    absent_token_is_rejected [OF run_out, of example_env "''x.example.com''"]
    never entry now
  show ?thesis by (simp add: advance_def)
qed

text \<open>
  C10. When the payload of the token is in the store with both fields and the pending marker
  of the view's list and the payload's address is not, the view answers "The token expired
  or invalid." and changes nothing but the flash messages: no unsubscribe call, no store
  write, and the token entry is still a key of the store afterwards.
\<close>

theorem unmarked_token_is_rejected:
  assumes "cache_get (clock w) (cache w) (cache_key token) = Some (JsonObj d)"
    and "map_of d ''email'' = Some email" and "map_of d ''list_id'' = Some payload_list"
    and "\<not> has_key (pending_key list_id email) w"
  shows "AnonymousUnsubscribeView_get en list_id (Some token) w =
           (Redirect list_id, w\<lparr>flash := flash w @ [(Error, expired_text)]\<rparr>)
         \<and> has_key (cache_key token) (snd (AnonymousUnsubscribeView_get en list_id (Some token) w))"
proof -
  have "AnonymousUnsubscribeView_get en list_id (Some token) w =
          (Redirect list_id, message Error expired_text w)"
    by (rule get_rejects_unmarked [OF assms])
  moreover have "has_key (cache_key token) w"
    using assms(1) by (simp add: has_key_def cache_has_key_def)
  ultimately show ?thesis
    by (simp add: message_def has_key_def)
qed

theorem unmarked_token_is_rejected_witness:
  "cache_get (clock orphan_world) (cache orphan_world) (cache_key ''c0ffee'')
     = Some (JsonObj [(''email'', ''a@example.com''), (''list_id'', ''x.example.com'')])
   \<and> \<not> has_key (pending_key ''x.example.com'' ''a@example.com'') orphan_world
   \<and> AnonymousUnsubscribeView_get example_env ''x.example.com'' (Some ''c0ffee'') orphan_world
       = (Redirect ''x.example.com'', orphan_world\<lparr>flash := [(Error, expired_text)]\<rparr>)
   \<and> has_key (cache_key ''c0ffee'') (orphan_world\<lparr>flash := [(Error, expired_text)]\<rparr>)"
proof -
  have payload: "cache_get (clock orphan_world) (cache orphan_world) (cache_key ''c0ffee'')
     = Some (JsonObj [(''email'', ''a@example.com''), (''list_id'', ''x.example.com'')])"
    by (simp add: key_defs store_defs scenario_defs)
  have unmarked: "\<not> has_key (pending_key ''x.example.com'' ''a@example.com'') orphan_world"
    by (simp add: scenario_marker_key cache_key_def store_defs scenario_defs)
  have "flash orphan_world = []" by (simp add: orphan_world_def)
  with unmarked_token_is_rejected [where en = example_env, OF payload scenario_fields unmarked]
    payload unmarked
  show ?thesis by (simp add: has_key_def cache_has_key_def)
qed

text \<open>
  C3. Once the view has found the payload of the token and the pending marker, both keys are
  deleted whatever the unsubscribe call does: afterwards neither is a key of the store. A
  \<^verbatim>\<open>ValueError\<close> of the call is shown to the user as a flash message; any other exception
  leaves the view, after the deletion.
\<close>

theorem confirmation_always_cleans_up:
  assumes "cache_get (clock w) (cache w) (cache_key token) = Some (JsonObj d)"
    and "map_of d ''email'' = Some email" and "map_of d ''list_id'' = Some payload_list"
    and "has_key (pending_key list_id email) w"
    and "AnonymousUnsubscribeView_get en list_id (Some token) w = (r, w')"
  shows "cache w' (cache_key token) = None \<and> cache w' (pending_key list_id email) = None
         \<and> \<not> has_key (cache_key token) w' \<and> \<not> has_key (pending_key list_id email) w'
         \<and> (\<forall>msg. unsubscribe en list_id email = RaisesValueError msg \<longrightarrow>
               r = Redirect list_id \<and> flash w' = flash w @ [(Error, msg)])
         \<and> (unsubscribe en list_id email = RaisesOther \<longrightarrow> r = Raised HTTPError)"
proof -
  from get_consumes [OF assms(1-4), of en] assms(5)
  have r: "r = fst (confirm_answer list_id email (unsubscribe en list_id email))"
    and w': "w' = w\<lparr>cache := (cache w)(pending_key list_id email := None, cache_key token := None),
              events := events w @ [Unsubscribe list_id email,
                                    CacheDelete (pending_key list_id email),
                                    CacheDelete (cache_key token)],
              flash := flash w @ snd (confirm_answer list_id email (unsubscribe en list_id email))\<rparr>"
    by simp_all
  have gone: "cache w' (cache_key token) = None" "cache w' (pending_key list_id email) = None"
    unfolding w' by simp_all
  then have "\<not> has_key (cache_key token) w'" "\<not> has_key (pending_key list_id email) w'"
    by (simp_all add: store_defs)
  moreover have "\<forall>msg. unsubscribe en list_id email = RaisesValueError msg \<longrightarrow>
               r = Redirect list_id \<and> flash w' = flash w @ [(Error, msg)]"
    unfolding r w' by (simp add: confirm_answer_def)
  moreover have "unsubscribe en list_id email = RaisesOther \<longrightarrow> r = Raised HTTPError"
    unfolding r by (simp add: confirm_answer_def)
  ultimately show ?thesis using gone by blast
qed

theorem confirmation_always_cleans_up_witness:
  "AnonymousUnsubscribeView_get
      (example_env\<lparr>unsubscribe := \<lambda>list_id email. RaisesValueError ''not a member''\<rparr>)
      ''x.example.com'' (Some ''c0ffee'') pending_world
     = (Redirect ''x.example.com'',
        \<lparr>cache = Map.empty, clock = 100,
         events = [Unsubscribe ''x.example.com'' ''a@example.com'',
                   CacheDelete ''unsubscribe_x.example.com_a@example.com'',
                   CacheDelete ''unsubscribe_c0ffee''],
         flash = [(Error, ''not a member'')], draws = 1\<rparr>)
   \<and> fst (AnonymousUnsubscribeView_get
            (example_env\<lparr>unsubscribe := \<lambda>list_id email. RaisesOther\<rparr>)
            ''x.example.com'' (Some ''c0ffee'') pending_world) = Raised HTTPError
   \<and> cache (snd (AnonymousUnsubscribeView_get
            (example_env\<lparr>unsubscribe := \<lambda>list_id email. RaisesOther\<rparr>)
            ''x.example.com'' (Some ''c0ffee'') pending_world)) ''unsubscribe_c0ffee'' = None
   \<and> cache (snd (AnonymousUnsubscribeView_get
            (example_env\<lparr>unsubscribe := \<lambda>list_id email. RaisesOther\<rparr>)
            ''x.example.com'' (Some ''c0ffee'') pending_world))
        ''unsubscribe_x.example.com_a@example.com'' = None"
proof -
  let ?en = "example_env\<lparr>unsubscribe := \<lambda>list_id email. RaisesOther\<rparr>"
  have first: "AnonymousUnsubscribeView_get
      (example_env\<lparr>unsubscribe := \<lambda>list_id email. RaisesValueError ''not a member''\<rparr>)
      ''x.example.com'' (Some ''c0ffee'') pending_world
     = (Redirect ''x.example.com'',
        \<lparr>cache = Map.empty, clock = 100,
         events = [Unsubscribe ''x.example.com'' ''a@example.com'',
                   CacheDelete ''unsubscribe_x.example.com_a@example.com'',
                   CacheDelete ''unsubscribe_c0ffee''],
         flash = [(Error, ''not a member'')], draws = 1\<rparr>)"
    by (simp add: scenario_confirmation confirm_answer_def)
  have raises: "unsubscribe ?en ''x.example.com'' ''a@example.com'' = RaisesOther"
    by simp
  from confirmation_always_cleans_up
    [where en = ?en, OF scenario_payload scenario_fields scenario_marked prod.collapse [symmetric]]
    raises first
  show ?thesis by (simp add: scenario_marker_key cache_key_def)
qed

text \<open>
  C2. After a confirmation that found the payload of the token and the pending marker, a
  further confirmation with the same token, at once or any time later, for any list and
  whatever the collaborators answer, is answered "The token expired or invalid." and
  changes nothing but the flash messages: the unsubscribe operation is not called again.
\<close>

theorem token_is_single_use:
  assumes "cache_get (clock w) (cache w) (cache_key token) = Some (JsonObj d)"
    and "map_of d ''email'' = Some email" and "map_of d ''list_id'' = Some payload_list"
    and "has_key (pending_key list_id email) w"
    and "AnonymousUnsubscribeView_get en list_id (Some token) w = (r, w')"
  shows "AnonymousUnsubscribeView_get en2 list_id2 (Some token) (advance t w') =
           (Redirect list_id2,
            w'\<lparr>clock := clock w' + t, flash := flash w' @ [(Error, expired_text)]\<rparr>)"
proof -
  from get_consumes [OF assms(1-4), of en] assms(5)
  have "cache w' = (cache w)(pending_key list_id email := None, cache_key token := None)"
    by auto
  then have "cache (advance t w') (cache_key token) = None"
    by (simp add: advance_def)
  then have "cache_get (clock (advance t w')) (cache (advance t w')) (cache_key token) = None"
    by (simp add: cache_get_def)
  from get_rejects_absent [OF this] show ?thesis
    by (simp add: message_def advance_def)
qed

theorem token_is_single_use_witness:
  "AnonymousUnsubscribeView_get example_env ''x.example.com'' (Some ''c0ffee'') pending_world
     = (Redirect ''x.example.com'',
        \<lparr>cache = Map.empty, clock = 100,
         events = [Unsubscribe ''x.example.com'' ''a@example.com'',
                   CacheDelete ''unsubscribe_x.example.com_a@example.com'',
                   CacheDelete ''unsubscribe_c0ffee''],
         flash = [(Success, unsubscribed_text ''a@example.com'')], draws = 1\<rparr>)
   \<and> AnonymousUnsubscribeView_get example_env ''x.example.com'' (Some ''c0ffee'')
        \<lparr>cache = Map.empty, clock = 100,
         events = [Unsubscribe ''x.example.com'' ''a@example.com'',
                   CacheDelete ''unsubscribe_x.example.com_a@example.com'',
                   CacheDelete ''unsubscribe_c0ffee''],
         flash = [(Success, unsubscribed_text ''a@example.com'')], draws = 1\<rparr>
     = (Redirect ''x.example.com'',
        \<lparr>cache = Map.empty, clock = 100,
         events = [Unsubscribe ''x.example.com'' ''a@example.com'',
                   CacheDelete ''unsubscribe_x.example.com_a@example.com'',
                   CacheDelete ''unsubscribe_c0ffee''],
         flash = [(Success, unsubscribed_text ''a@example.com''), (Error, expired_text)],
         draws = 1\<rparr>)"
proof -
  have first: "AnonymousUnsubscribeView_get example_env ''x.example.com'' (Some ''c0ffee'')
      pending_world
     = (Redirect ''x.example.com'',
        \<lparr>cache = Map.empty, clock = 100,
         events = [Unsubscribe ''x.example.com'' ''a@example.com'',
                   CacheDelete ''unsubscribe_x.example.com_a@example.com'',
                   CacheDelete ''unsubscribe_c0ffee''],
         flash = [(Success, unsubscribed_text ''a@example.com'')], draws = 1\<rparr>)"
    by (simp add: scenario_confirmation confirm_answer_def example_env_def)
  from token_is_single_use
    [where ?en2.0 = example_env and ?list_id2.0 = "''x.example.com''" and t = 0,
      OF scenario_payload scenario_fields scenario_marked first] first
  show ?thesis by (simp add: advance_def)
qed

text \<open>
  C8, as the code has it. When the payload of the token is in the store with both fields and
  the pending marker of the view's list and the payload's address is a key of the store, the
  view calls the unsubscribe operation of its own mailing list (the list of the request
  URL) for the payload's address, and then deletes the pending marker of that list and
  address and the token key. The payload's \<^verbatim>\<open>list_id\<close> is checked for presence only; it is
  the view's list for every link that the request view mails.
\<close>

theorem confirmation_acts_on_view_list:
  assumes "cache_get (clock w) (cache w) (cache_key token) = Some (JsonObj d)"
    and "map_of d ''email'' = Some email" and "map_of d ''list_id'' = Some payload_list"
    and "has_key (pending_key list_id email) w"
    and "AnonymousUnsubscribeView_get en list_id (Some token) w = (r, w')"
  shows "events w' = events w @ [Unsubscribe list_id email,
                                 CacheDelete (pending_key list_id email),
                                 CacheDelete (cache_key token)]
         \<and> cache w' = (cache w)(pending_key list_id email := None, cache_key token := None)"
  using get_consumes [OF assms(1-4), of en] assms(5) by auto

theorem confirmation_acts_on_view_list_witness:
  "events (snd (AnonymousUnsubscribeView_get example_env ''x.example.com'' (Some ''c0ffee'')
                  pending_world))
     = [Unsubscribe ''x.example.com'' ''a@example.com'',
        CacheDelete ''unsubscribe_x.example.com_a@example.com'',
        CacheDelete ''unsubscribe_c0ffee'']
   \<and> cache (snd (AnonymousUnsubscribeView_get example_env ''x.example.com'' (Some ''c0ffee'')
                  pending_world)) = Map.empty"
proof -
  have "events pending_world = []" and "cache pending_world = pending_cache"
    by (simp_all add: pending_world_def)
  with confirmation_acts_on_view_list
    [where en = example_env,
      OF scenario_payload scenario_fields scenario_marked prod.collapse [symmetric]]
  show ?thesis
    by (simp add: scenario_marker_key cache_key_def pending_cache_def)
qed

text \<open>
  The claim as stated fails when the list of the URL is not the list of the payload. With
  requests pending on two lists, the token mailed for \<^verbatim>\<open>x.example.com\<close> presented at
  \<^verbatim>\<open>y.example.com\<close> unsubscribes from \<^verbatim>\<open>y.example.com\<close> and deletes that list's marker;
  the marker of the payload's list stays.
\<close>

theorem confirmation_acts_on_view_list_counterexample:
  "cache_get (clock two_lists_world) (cache two_lists_world) (cache_key ''c0ffee'')
     = Some (JsonObj [(''email'', ''a@example.com''), (''list_id'', ''x.example.com'')])
   \<and> events (snd (AnonymousUnsubscribeView_get example_env ''y.example.com'' (Some ''c0ffee'')
                    two_lists_world))
       = [Unsubscribe ''y.example.com'' ''a@example.com'',
          CacheDelete ''unsubscribe_y.example.com_a@example.com'',
          CacheDelete ''unsubscribe_c0ffee'']
   \<and> has_key (pending_key ''x.example.com'' ''a@example.com'')
        (snd (AnonymousUnsubscribeView_get example_env ''y.example.com'' (Some ''c0ffee'')
                two_lists_world))"
proof -
  have payload: "cache_get (clock two_lists_world) (cache two_lists_world) (cache_key ''c0ffee'')
     = Some (JsonObj [(''email'', ''a@example.com''), (''list_id'', ''x.example.com'')])"
    by (simp add: key_defs store_defs scenario_defs)
  have marked: "has_key (pending_key ''y.example.com'' ''a@example.com'') two_lists_world"
    by (simp add: scenario_other_marker_key store_defs scenario_defs)
  have run: "AnonymousUnsubscribeView_get example_env ''y.example.com'' (Some ''c0ffee'')
               two_lists_world
     = (fst (confirm_answer ''y.example.com'' ''a@example.com''
               (unsubscribe example_env ''y.example.com'' ''a@example.com'')),
        two_lists_world
          \<lparr>cache := (cache two_lists_world)
              (pending_key ''y.example.com'' ''a@example.com'' := None,
               cache_key ''c0ffee'' := None),
           events := events two_lists_world @
              [Unsubscribe ''y.example.com'' ''a@example.com'',
               CacheDelete (pending_key ''y.example.com'' ''a@example.com''),
               CacheDelete (cache_key ''c0ffee'')],
           flash := flash two_lists_world @
              snd (confirm_answer ''y.example.com'' ''a@example.com''
                     (unsubscribe example_env ''y.example.com'' ''a@example.com''))\<rparr>)"
    by (rule get_consumes [OF payload _ _ marked]) simp_all
  have "events two_lists_world = []" by (simp add: two_lists_world_def)
  moreover have "has_key (pending_key ''x.example.com'' ''a@example.com'')
      (two_lists_world
          \<lparr>cache := (cache two_lists_world)
              (pending_key ''y.example.com'' ''a@example.com'' := None,
               cache_key ''c0ffee'' := None)\<rparr>)"
    by (simp add: scenario_marker_key scenario_other_marker_key cache_key_def store_defs
        scenario_defs)
  ultimately show ?thesis
    using payload run
    by (simp add: scenario_other_marker_key cache_key_def has_key_def)
qed


end
